theory Spec2Isabelle
  imports Complex_Main
begin

section \<open>Python values and strings\<close>

text \<open>
  The recommender of \<^verbatim>\<open>app.py\<close> works on dynamically typed data: cells of a
  pandas table, fields of raw records, JSON payloads. A value is one of the shapes
  below. \<open>PNan\<close> is the float \<^verbatim>\<open>nan\<close>, which pandas puts where a cell is missing; the
  infinities are not represented. Strings are ASCII strings: \<open>lower\<close> maps \<open>A..Z\<close>
  to \<open>a..z\<close> and leaves every other character alone, and \<open>length\<close> counts characters.
  A dictionary is an association list read with \<open>map_of\<close>.
\<close>

datatype pyval =
    PNone
  | PBool bool
  | PInt int
  | PFloat real
  | PNan
  | PStr string
  | PList "pyval list"
  | PDict "(string \<times> pyval) list"

datatype pyerr = AttributeError | TypeError | ValueError | IndexError | OverflowError | ReError

type_synonym pydict = "(string \<times> pyval) list"

text \<open>\<^verbatim>\<open>bool(v)\<close>, as \<^verbatim>\<open>not v\<close>, \<^verbatim>\<open>a or b\<close> and \<^verbatim>\<open>if v\<close> use it.\<close>

fun truthy :: "pyval \<Rightarrow> bool" where
  "truthy PNone = False"
| "truthy (PBool b) = b"
| "truthy (PInt i) = (i \<noteq> 0)"
| "truthy (PFloat r) = (r \<noteq> 0)"
| "truthy PNan = True"
| "truthy (PStr s) = (s \<noteq> [])"
| "truthy (PList xs) = (xs \<noteq> [])"
| "truthy (PDict kvs) = (kvs \<noteq> [])"

text \<open>\<^verbatim>\<open>a or b\<close>\<close>

definition py_or :: "pyval \<Rightarrow> pyval \<Rightarrow> pyval" where
  "py_or a b = (if truthy a then a else b)"

text \<open>\<^verbatim>\<open>d.get(k)\<close> and \<^verbatim>\<open>d.get(k, default)\<close>\<close>

definition dict_get :: "pydict \<Rightarrow> string \<Rightarrow> pyval" where
  "dict_get d k = (case map_of d k of None \<Rightarrow> PNone | Some v \<Rightarrow> v)"

definition dict_get_or :: "pydict \<Rightarrow> string \<Rightarrow> pyval \<Rightarrow> pyval" where
  "dict_get_or d k dflt = (case map_of d k of None \<Rightarrow> dflt | Some v \<Rightarrow> v)"

subsection \<open>String methods\<close>

definition lower_char :: "char \<Rightarrow> char" where
  "lower_char c =
     (case map_of (zip ''ABCDEFGHIJKLMNOPQRSTUVWXYZ'' ''abcdefghijklmnopqrstuvwxyz'') c of
        None \<Rightarrow> c
      | Some d \<Rightarrow> d)"

definition lower :: "string \<Rightarrow> string" where
  "lower s = map lower_char s"

text \<open>The ASCII characters \<^verbatim>\<open>str.isspace\<close> accepts: tab, line feed, vertical tab, form
  feed, carriage return, the four separators \<^verbatim>\<open>0x1c..0x1f\<close> and the space.\<close>

definition is_space :: "char \<Rightarrow> bool" where
  "is_space c = (c \<in> set [CHR 0x09, CHR 0x0A, CHR 0x0B, CHR 0x0C, CHR 0x0D,
                           CHR 0x1C, CHR 0x1D, CHR 0x1E, CHR 0x1F, CHR '' ''])"

definition strip :: "string \<Rightarrow> string" where
  "strip s = rev (dropWhile is_space (rev (dropWhile is_space s)))"

text \<open>\<^verbatim>\<open>s.startswith(p)\<close>\<close>

fun startswith :: "string \<Rightarrow> string \<Rightarrow> bool" where
  "startswith s [] = True"
| "startswith [] (p # ps) = False"
| "startswith (c # cs) (p # ps) = (c = p \<and> startswith cs ps)"

text \<open>\<^verbatim>\<open>sub in s\<close>\<close>

fun contains :: "string \<Rightarrow> string \<Rightarrow> bool" where
  "contains [] sub = (sub = [])"
| "contains (c # cs) sub = (startswith (c # cs) sub \<or> contains cs sub)"

text \<open>\<^verbatim>\<open>s.split()\<close>: the maximal runs of characters that are not whitespace.\<close>

fun split_ws :: "string \<Rightarrow> string \<Rightarrow> string list" where
  "split_ws cur [] = (if cur = [] then [] else [cur])"
| "split_ws cur (c # cs) =
     (if is_space c then (if cur = [] then split_ws [] cs else cur # split_ws [] cs)
      else split_ws (cur @ [c]) cs)"

definition str_split :: "string \<Rightarrow> string list" where
  "str_split s = split_ws [] s"

text \<open>\<^verbatim>\<open>s.isdigit()\<close> on ASCII\<close>

definition is_digit :: "char \<Rightarrow> bool" where
  "is_digit c = (c \<in> set ''0123456789'')"

definition isdigit :: "string \<Rightarrow> bool" where
  "isdigit s = (s \<noteq> [] \<and> list_all is_digit s)"

text \<open>\<^verbatim>\<open>sep.join(xs)\<close> for a list of strings\<close>

fun join :: "string \<Rightarrow> string list \<Rightarrow> string" where
  "join sep [] = []"
| "join sep [x] = x"
| "join sep (x # y # ys) = x @ sep @ join sep (y # ys)"

subsection \<open>Integers and strings\<close>

text \<open>\<^verbatim>\<open>str(n)\<close> for an integer, as the f-strings \<^verbatim>\<open>f"anime-{idx}"\<close> print it.\<close>

fun show_nat :: "nat \<Rightarrow> string" where
  "show_nat n =
     (if n < 10 then [''0123456789'' ! n]
      else show_nat (n div 10) @ [''0123456789'' ! (n mod 10)])"

declare show_nat.simps [simp del]

definition show_int :: "int \<Rightarrow> string" where
  "show_int i = (if i < 0 then CHR ''-'' # show_nat (nat (- i)) else show_nat (nat i))"

text \<open>
  \<^verbatim>\<open>int(s)\<close> for an ASCII string: surrounding whitespace is dropped, one sign is
  allowed, then decimal digits; single underscores may stand between digits. Anything
  else is a \<^verbatim>\<open>ValueError\<close> (\<open>None\<close> here).
\<close>

definition digit_val :: "char \<Rightarrow> nat" where
  "digit_val c = (case map_of (zip ''0123456789'' [0, 1, 2, 3, 4, 5, 6, 7, 8, 9]) c of
                    None \<Rightarrow> 0 | Some d \<Rightarrow> d)"

fun digits_ok :: "string \<Rightarrow> bool" where
  "digits_ok [] = False"
| "digits_ok [c] = is_digit c"
| "digits_ok (c # d # cs) =
     (is_digit c \<and> (if d = CHR ''_'' then cs \<noteq> [] \<and> digits_ok cs else digits_ok (d # cs)))"

definition digits_val :: "string \<Rightarrow> nat" where
  "digits_val s = foldl (\<lambda>acc c. if c = CHR ''_'' then acc else 10 * acc + digit_val c) 0 s"

definition int_of_str :: "string \<Rightarrow> int option" where
  "int_of_str s =
     (case strip s of
        [] \<Rightarrow> None
      | c # cs \<Rightarrow>
          if c = CHR ''-'' then (if digits_ok cs then Some (- int (digits_val cs)) else None)
          else if c = CHR ''+'' then (if digits_ok cs then Some (int (digits_val cs)) else None)
          else if digits_ok (c # cs) then Some (int (digits_val (c # cs)))
          else None)"

subsection \<open>What the model takes from the Python runtime\<close>

text \<open>
  Four library functions are parameters of the model, since their results are floats or
  depend on the regular-expression engine: the text \<^verbatim>\<open>str\<close> prints for a float, a list or
  a dictionary; \<^verbatim>\<open>float(s)\<close> of a string; \<^verbatim>\<open>float(n)\<close> of an integer beyond \<open>2^53\<close>
  (rounding, or \<^verbatim>\<open>OverflowError\<close>); and \<^verbatim>\<open>re.compile\<close>, which gives the search
  predicate of a pattern or fails. Every theorem below holds for every runtime.
\<close>

record runtime =
  repr :: "pyval \<Rightarrow> string"
  float_of_str :: "string \<Rightarrow> pyerr + pyval"
  float_of_big :: "int \<Rightarrow> pyerr + pyval"
  re_compile :: "string \<Rightarrow> pyerr + (string \<Rightarrow> bool)"

text \<open>
  The closed examples of this theory run on \<open>plain_runtime\<close>. Their inputs hold no float,
  list or dictionary to print, no string to read as a float and no integer beyond \<open>2^53\<close>,
  and the words of their queries are made of letters, so none of its four fields is ever
  consulted.
\<close>

definition plain_runtime :: runtime where
  "plain_runtime =
     \<lparr>repr = (\<lambda>v. ''<object>''),
      float_of_str = (\<lambda>s. Inl ValueError),
      float_of_big = (\<lambda>i. Inl OverflowError),
      re_compile = (\<lambda>p. Inl ReError)\<rparr>"

text \<open>\<^verbatim>\<open>str(v)\<close>\<close>

definition py_str :: "runtime \<Rightarrow> pyval \<Rightarrow> string" where
  "py_str rt v =
     (case v of
        PStr s \<Rightarrow> s
      | PNone \<Rightarrow> ''None''
      | PBool b \<Rightarrow> (if b then ''True'' else ''False'')
      | PInt i \<Rightarrow> show_int i
      | PNan \<Rightarrow> ''nan''
      | _ \<Rightarrow> repr rt v)"

text \<open>\<^verbatim>\<open>int(v)\<close>: a float is truncated towards zero.\<close>

definition py_int :: "pyval \<Rightarrow> pyerr + int" where
  "py_int v =
     (case v of
        PInt i \<Rightarrow> Inr i
      | PBool b \<Rightarrow> Inr (if b then 1 else 0)
      | PFloat r \<Rightarrow> Inr (if 0 \<le> r then \<lfloor>r\<rfloor> else \<lceil>r\<rceil>)
      | PNan \<Rightarrow> Inl ValueError
      | PStr s \<Rightarrow> (case int_of_str s of None \<Rightarrow> Inl ValueError | Some i \<Rightarrow> Inr i)
      | _ \<Rightarrow> Inl TypeError)"

text \<open>\<^verbatim>\<open>float(v)\<close>\<close>

definition py_float :: "runtime \<Rightarrow> pyval \<Rightarrow> pyerr + pyval" where
  "py_float rt v =
     (case v of
        PFloat r \<Rightarrow> Inr (PFloat r)
      | PNan \<Rightarrow> Inr PNan
      | PBool b \<Rightarrow> Inr (PFloat (if b then 1 else 0))
      | PInt i \<Rightarrow> (if \<bar>i\<bar> \<le> 2 ^ 53 then Inr (PFloat (of_int i)) else float_of_big rt i)
      | PStr s \<Rightarrow> float_of_str rt s
      | _ \<Rightarrow> Inl TypeError)"

section \<open>Rating scale converter\<close>

text \<open>
  \<^verbatim>\<open>_convert_game_rating(rating_str)\<close>. A falsy argument gives \<open>0.0\<close>; a truthy one that is
  not a string has no \<^verbatim>\<open>lower\<close> method, which raises \<^verbatim>\<open>AttributeError\<close>. The ladder is
  in the order of the source.
\<close>

definition convert_game_rating :: "pyval \<Rightarrow> pyerr + real" where
  "convert_game_rating rating_str =
     (if \<not> truthy rating_str then Inr 0.0
      else case rating_str of
        PStr s \<Rightarrow>
          (let r = lower s in
           if contains r ''very positive'' then Inr 5.0
           else if contains r ''positive'' then Inr 4.0
           else if contains r ''mixed'' then Inr 3.0
           else if contains r ''negative'' then Inr 2.0
           else if contains r ''very negative'' then Inr 1.0
           else Inr 0.0)
      | _ \<Rightarrow> Inl AttributeError)"

section \<open>Request handling: the limit of \<^verbatim>\<open>/api/recommend\<close>\<close>

text \<open>
  \<^verbatim>\<open>api_recommend\<close> up to its call of the recommender. The body is the parsed JSON, or
  \<open>None\<close> when \<^verbatim>\<open>get_json\<close> raises. The outcome is the call the handler makes, or the
  status of the error response it sends instead.
\<close>

datatype outcome = Recommend string string int | Status400 | Status500

definition clamp_limit :: "int \<Rightarrow> int" where
  "clamp_limit limit = (if limit = 12 then 12 else min (max limit 1) 50)"

definition api_recommend :: "runtime \<Rightarrow> pyval option \<Rightarrow> outcome" where
  "api_recommend rt body =
     (case body of
        None \<Rightarrow> Status500
      | Some js \<Rightarrow>
          (case py_or js (PDict []) of
             PDict payload \<Rightarrow>
               (let title = strip (py_str rt (dict_get_or payload ''title'' (PStr '''')));
                    rec_type = lower (strip (py_str rt (dict_get_or payload ''type'' (PStr ''''))))
                in case py_int (dict_get_or payload ''limit'' (PInt 25)) of
                     Inl e \<Rightarrow> Status500
                   | Inr limit0 \<Rightarrow>
                       (let limit = clamp_limit limit0
                        in if title = [] \<or> rec_type \<notin> {''anime'', ''game''} then Status400
                           else Recommend title rec_type limit))
           | _ \<Rightarrow> Status500))"

section \<open>Canonical items and the normalizer\<close>

text \<open>
  The dictionaries the source builds for an item. \<open>m_price\<close> and \<open>m_similarity\<close> are
  \<open>None\<close> where the source leaves the key out.
\<close>

record metadata =
  m_genre :: pyval
  m_year :: pyval
  m_popularity :: int
  m_price :: "pyval option"
  m_similarity :: "real option"

record item =
  i_id :: string
  i_title :: string
  i_image_url :: pyval
  i_rating :: pyval
  i_type :: string
  i_metadata :: metadata

text \<open>\<^verbatim>\<open>isinstance(v, str) and v.startswith("http")\<close>\<close>

definition is_http_str :: "pyval \<Rightarrow> bool" where
  "is_http_str v = (case v of PStr s \<Rightarrow> startswith s ''http'' | _ \<Rightarrow> False)"

definition steam_header :: "string \<Rightarrow> string" where
  "steam_header app = ''https://cdn.akamai.steamstatic.com/steam/apps/'' @ app @ ''/header.jpg''"

definition denylist :: "string list" where
  "denylist = [''pandas.core'', ''numpy.core'', ''dataframe'', ''series'', ''dtype'', ''ndarray'', ''index'']"

text \<open>The title \<^verbatim>\<open>_coerce_record\<close> resolves, and its text \<^verbatim>\<open>title_str = str(title)\<close>.\<close>

definition resolve_title :: "runtime \<Rightarrow> pydict \<Rightarrow> int \<Rightarrow> pyval" where
  "resolve_title rt obj idx =
     foldr py_or
       [dict_get obj ''title'', dict_get obj ''name'', dict_get obj ''Name'',
        dict_get obj ''app_name'', dict_get obj ''anime'', dict_get obj ''game'']
       (PStr (py_str rt
          (foldr py_or [dict_get obj ''Name'', dict_get obj ''Title'']
             (PStr (''Item '' @ show_int idx)))))"

definition title_str :: "runtime \<Rightarrow> pydict \<Rightarrow> int \<Rightarrow> string" where
  "title_str rt obj idx = py_str rt (resolve_title rt obj idx)"

text \<open>
  The genre text: \<^verbatim>\<open>", ".join(genre)\<close> for a list, which raises \<^verbatim>\<open>TypeError\<close> when an
  element is not a string, and \<^verbatim>\<open>str(genre or "")\<close> otherwise.
\<close>

fun str_items :: "pyval list \<Rightarrow> string list option" where
  "str_items [] = Some []"
| "str_items (PStr s # vs) = (case str_items vs of None \<Rightarrow> None | Some ss \<Rightarrow> Some (s # ss))"
| "str_items (v # vs) = None"

definition genre_text :: "runtime \<Rightarrow> pyval \<Rightarrow> pyerr + string" where
  "genre_text rt genre =
     (case genre of
        PList vs \<Rightarrow> (case str_items vs of None \<Rightarrow> Inl TypeError | Some ss \<Rightarrow> Inr (join '', '' ss))
      | _ \<Rightarrow> Inr (py_str rt (py_or genre (PStr ''''))))"

text \<open>
  \<^verbatim>\<open>_coerce_record(obj, item_type, idx)\<close>. \<open>Inr None\<close> is the source's \<^verbatim>\<open>return None\<close>.
  Each \<^verbatim>\<open>try\<close> block of the source is a \<open>case\<close> whose \<open>Inl\<close> branch is its \<^verbatim>\<open>except\<close>.
\<close>

definition coerce_record :: "runtime \<Rightarrow> pydict \<Rightarrow> string \<Rightarrow> int \<Rightarrow> pyerr + item option" where
  "coerce_record rt obj item_type idx =
     (let title = resolve_title rt obj idx;
          image_url = foldr py_or
            [dict_get obj ''image_url'', dict_get obj ''img_url'', dict_get obj ''poster'',
             dict_get obj ''header_image'', dict_get obj ''thumbnail'']
            (dict_get obj ''Image URL'');
          rating = foldr py_or
            [dict_get obj ''rating'', dict_get obj ''score'', dict_get obj ''avg_rating'',
             dict_get obj ''Rating'']
            (PFloat 0.0);
          genre = foldr py_or
            [dict_get obj ''genre'', dict_get obj ''genres'', dict_get obj ''tags'',
             dict_get obj ''Genres'']
            (PStr '''');
          year = foldr py_or
            [dict_get obj ''year'', dict_get obj ''release_year'', dict_get obj ''aired'']
            PNone;
          popularity = foldr py_or
            [dict_get obj ''popularity'', dict_get obj ''pop'', dict_get obj ''rank'',
             dict_get obj ''Popularity'', dict_get obj ''user_reviews'']
            (PInt 0);
          price = foldr py_or
            [dict_get obj ''price'', dict_get obj ''final_price'', dict_get obj ''price_final'']
            PNone;
          rating =
            (if item_type = ''game''
             then (case convert_game_rating rating of Inl e \<Rightarrow> PFloat 0.0 | Inr r \<Rightarrow> PFloat r)
             else (case py_float rt rating of Inl e \<Rightarrow> PFloat 0.0 | Inr f \<Rightarrow> f));
          year =
            (if year \<noteq> PNone \<and> isdigit (py_str rt year)
             then (case py_int year of Inl e \<Rightarrow> PNone | Inr y \<Rightarrow> PInt y)
             else PNone);
          popularity = (case py_int popularity of Inl e \<Rightarrow> 0 | Inr n \<Rightarrow> n);
          app_id = foldr py_or [dict_get obj ''app_id'', dict_get obj ''appid''] (dict_get obj ''appId'');
          image_url =
            (if (\<not> truthy image_url \<or> \<not> is_http_str image_url) \<and> truthy app_id
             then (case py_int app_id of
                     Inl e \<Rightarrow> image_url
                   | Inr a \<Rightarrow> PStr (steam_header (show_int a)))
             else image_url);
          title_str = py_str rt title
      in if length title_str > 300 \<or> list_ex (\<lambda>k. contains (lower title_str) k) denylist
         then Inr None
         else (case genre_text rt genre of
                 Inl e \<Rightarrow> Inl e
               | Inr g \<Rightarrow>
                   Inr (Some
                     \<lparr>i_id = py_str rt
                        (foldr py_or
                           [dict_get obj ''id'', dict_get obj ''app_id'', dict_get obj ''anime_id'']
                           (PStr (''pop-'' @ show_int idx))),
                      i_title = title_str,
                      i_image_url = (if is_http_str image_url then image_url else PNone),
                      i_rating = rating,
                      i_type = item_type,
                      i_metadata =
                        \<lparr>m_genre = PStr g, m_year = year, m_popularity = popularity,
                         m_price = Some price, m_similarity = None\<rparr>\<rparr>)))"

section \<open>Catalog tables\<close>

text \<open>
  A pandas table: its column names, the columns whose \<^verbatim>\<open>.str\<close> accessor pandas allows
  (those it holds as text; on any other column the accessor raises \<^verbatim>\<open>AttributeError\<close>),
  and its rows in order, each with its index label. A row read from the table is a
  \<open>series\<close>: the cells under the table's column names. A column the row's dictionary
  does not mention holds \<^verbatim>\<open>nan\<close>.
\<close>

record dataframe =
  columns :: "string list"
  text_columns :: "string list"
  rows :: "(int \<times> pydict) list"

record series =
  index :: "string list"
  cells :: pydict

definition as_series :: "dataframe \<Rightarrow> pydict \<Rightarrow> series" where
  "as_series df r = \<lparr>index = columns df, cells = r\<rparr>"

text \<open>\<^verbatim>\<open>item[col]\<close> for a column of the table, and \<^verbatim>\<open>item.get(key, default)\<close>\<close>

definition series_at :: "series \<Rightarrow> string \<Rightarrow> pyval" where
  "series_at item col = dict_get_or (cells item) col PNan"

definition series_get :: "series \<Rightarrow> string \<Rightarrow> pyval \<Rightarrow> pyval" where
  "series_get item key dflt = (if key \<in> set (index item) then series_at item key else dflt)"

text \<open>\<^verbatim>\<open>xs[:n]\<close> and \<^verbatim>\<open>df.head(n)\<close>: a negative \<open>n\<close> drops the last \<open>-n\<close> elements.\<close>

definition py_take :: "int \<Rightarrow> 'a list \<Rightarrow> 'a list" where
  "py_take n xs = (if 0 \<le> n then take (nat n) xs else take (length xs - nat (- n)) xs)"

text \<open>\<^verbatim>\<open>data.iloc[idx]\<close>: by position, a negative position counting from the end.\<close>

definition iloc :: "dataframe \<Rightarrow> int \<Rightarrow> pyerr + series" where
  "iloc df i =
     (let n = int (length (rows df))
      in if 0 \<le> i \<and> i < n then Inr (as_series df (snd (rows df ! nat i)))
         else if - n \<le> i \<and> i < 0 then Inr (as_series df (snd (rows df ! nat (n + i))))
         else Inl IndexError)"

text \<open>\<^verbatim>\<open>enumerate(xs)\<close>\<close>

definition enumerate_from0 :: "'a list \<Rightarrow> (int \<times> 'a) list" where
  "enumerate_from0 xs = zip (map int [0..<length xs]) xs"

section \<open>Formatting a row\<close>

text \<open>
  The rating loop of the anime branch: the first rating column of the row whose cell is
  present, not \<^verbatim>\<open>''\<close> and convertible by \<^verbatim>\<open>float\<close>. A \<^verbatim>\<open>ValueError\<close> or
  \<^verbatim>\<open>TypeError\<close> moves on to the next column; any other error leaves the loop.
\<close>

definition notna :: "pyval \<Rightarrow> bool" where
  "notna v = (v \<noteq> PNone \<and> v \<noteq> PNan)"

fun scan_rating :: "runtime \<Rightarrow> series \<Rightarrow> string list \<Rightarrow> pyerr + pyval" where
  "scan_rating rt item [] = Inr (PFloat 0.0)"
| "scan_rating rt item (rating_col # rest) =
     (if rating_col \<in> set (index item)
      then (let rating_val = series_at item rating_col
            in if notna rating_val \<and> rating_val \<noteq> PStr ''''
               then (case py_float rt rating_val of
                       Inr f \<Rightarrow> Inr f
                     | Inl e \<Rightarrow> if e = ValueError \<or> e = TypeError then scan_rating rt item rest
                                else Inl e)
               else scan_rating rt item rest)
      else scan_rating rt item rest)"

definition rating_columns :: "string list" where
  "rating_columns = [''Rating'', ''rating'', ''score'', ''Score'', ''avg_rating'']"

text \<open>\<^verbatim>\<open>_format_item(item, item_type, col, idx)\<close>\<close>

definition format_item :: "runtime \<Rightarrow> series \<Rightarrow> string \<Rightarrow> string \<Rightarrow> int \<Rightarrow> pyerr + item" where
  "format_item rt item item_type col idx =
     (if item_type = ''anime''
      then (case scan_rating rt item rating_columns of
              Inl e \<Rightarrow> Inl e
            | Inr rating \<Rightarrow>
                (case py_int (series_get item ''Popularity'' (PInt 0)) of
                   Inl e \<Rightarrow> Inl e
                 | Inr pop \<Rightarrow>
                     Inr \<lparr>i_id = py_str rt (series_get item ''anime_id'' (PStr (''anime-'' @ show_int idx))),
                          i_title = py_str rt (series_at item col),
                          i_image_url = series_get item ''Image URL'' PNone,
                          i_rating = rating,
                          i_type = ''anime'',
                          i_metadata =
                            \<lparr>m_genre = series_get item ''Genres'' (PStr ''''), m_year = PNone,
                             m_popularity = pop, m_price = None, m_similarity = Some 0.8\<rparr>\<rparr>))
      else (case convert_game_rating (series_get item ''rating'' (PInt 0)) of
              Inl e \<Rightarrow> Inl e
            | Inr rating \<Rightarrow>
                (case py_int (series_get item ''user_reviews'' (PInt 0)) of
                   Inl e \<Rightarrow> Inl e
                 | Inr pop \<Rightarrow>
                     Inr \<lparr>i_id = py_str rt (series_get item ''app_id'' (PStr (''game-'' @ show_int idx))),
                          i_title = py_str rt (series_at item col),
                          i_image_url =
                            PStr (steam_header (py_str rt (series_get item ''app_id'' (PStr ''0'')))),
                          i_rating = PFloat rating,
                          i_type = ''game'',
                          i_metadata =
                            \<lparr>m_genre = PStr '''', m_year = PNone, m_popularity = pop,
                             m_price = Some (series_get item ''price_final'' PNone),
                             m_similarity = Some 0.8\<rparr>\<rparr>)))"

section \<open>Trained models and the popularity fallback\<close>

text \<open>
  \<^verbatim>\<open>TRAINED_MODELS\<close> is \<^verbatim>\<open>{}\<close> until the models are loaded (\<open>None\<close> here), and then holds
  a dictionary for \<^verbatim>\<open>"anime"\<close> and one for \<^verbatim>\<open>"game"\<close>. A key of such a dictionary is
  absent when the file does not exist, holds \<^verbatim>\<open>None\<close> when loading it failed, and the
  loaded object otherwise. The anime popularity artifact is an ordered list of titles;
  the game one is a table of which only the index labels are read, as row positions
  of the game table.
\<close>

datatype 'a slot = Absent | Null | Loaded 'a

record 'p models =
  popular_key :: "'p slot"
  data_key :: "dataframe slot"

record trained_models =
  anime :: "string list models"
  game :: "int list models"

definition title_columns :: "string list" where
  "title_columns = [''Name'', ''name'', ''title'', ''Title'']"

text \<open>
  The rows \<^verbatim>\<open>data[data[col] == anime_name]\<close> of the first title column that has any;
  the empty list when no column has one.
\<close>

fun anime_match :: "dataframe \<Rightarrow> string \<Rightarrow> string list \<Rightarrow> (int \<times> pydict) list" where
  "anime_match data anime_name [] = []"
| "anime_match data anime_name (col # cols) =
     (if col \<in> set (columns data)
      then (let m = filter (\<lambda>(idx, r). dict_get_or r col PNan = PStr anime_name) (rows data)
            in if m \<noteq> [] then m else anime_match data anime_name cols)
      else anime_match data anime_name cols)"

text \<open>One turn of the loops of \<^verbatim>\<open>_get_popular_items\<close>; \<open>None\<close> when the turn appends
  nothing (no match, or an exception caught by the \<^verbatim>\<open>continue\<close>).\<close>

definition popular_anime_item :: "runtime \<Rightarrow> dataframe \<Rightarrow> int \<Rightarrow> string \<Rightarrow> item option" where
  "popular_anime_item rt data i anime_name =
     (case anime_match data anime_name title_columns of
        [] \<Rightarrow> None
      | (idx, r) # others \<Rightarrow>
          (let anime_info = as_series data r
           in case scan_rating rt anime_info rating_columns of
                Inl e \<Rightarrow> None
              | Inr rating \<Rightarrow>
                  (case py_int (series_get anime_info ''Popularity'' (PInt 0)) of
                     Inl e \<Rightarrow> None
                   | Inr pop \<Rightarrow>
                       Some \<lparr>i_id = py_str rt
                                (series_get anime_info ''anime_id'' (PStr (''anime-'' @ show_int i))),
                             i_title = anime_name,
                             i_image_url = series_get anime_info ''Image URL'' PNone,
                             i_rating = rating,
                             i_type = ''anime'',
                             i_metadata =
                               \<lparr>m_genre = series_get anime_info ''Genres'' (PStr ''''),
                                m_year = PNone, m_popularity = pop, m_price = None,
                                m_similarity = Some 0.5\<rparr>\<rparr>)))"

definition popular_game_item :: "runtime \<Rightarrow> dataframe \<Rightarrow> int \<Rightarrow> item option" where
  "popular_game_item rt data idx =
     (case iloc data idx of
        Inl e \<Rightarrow> None
      | Inr game_info \<Rightarrow>
          (case convert_game_rating (series_get game_info ''rating'' (PInt 0)) of
             Inl e \<Rightarrow> None
           | Inr rating \<Rightarrow>
               (case py_int (series_get game_info ''user_reviews'' (PInt 0)) of
                  Inl e \<Rightarrow> None
                | Inr pop \<Rightarrow>
                    Some \<lparr>i_id = py_str rt
                             (series_get game_info ''app_id'' (PStr (''game-'' @ show_int idx))),
                          i_title = py_str rt
                             (series_get game_info ''title''
                               (series_get game_info ''Title''
                                 (series_get game_info ''name''
                                   (series_get game_info ''Name'' (PStr (''Game '' @ show_int idx)))))),
                          i_image_url = PStr (steam_header
                             (py_str rt (series_get game_info ''app_id'' (PStr ''0'')))),
                          i_rating = PFloat rating,
                          i_type = ''game'',
                          i_metadata =
                            \<lparr>m_genre = PStr '''', m_year = PNone, m_popularity = pop,
                             m_price = Some (series_get game_info ''price_final'' PNone),
                             m_similarity = Some 0.5\<rparr>\<rparr>)))"

text \<open>
  \<^verbatim>\<open>_get_popular_items(item_type, limit)\<close>. With the models not loaded, or the table
  absent, the lookup raises and the outer \<^verbatim>\<open>except\<close> returns \<^verbatim>\<open>[]\<close>; so does slicing a
  popularity artifact that is \<^verbatim>\<open>None\<close>. With the table \<^verbatim>\<open>None\<close> every turn of the loop
  raises and is skipped.
\<close>

definition get_popular_items :: "runtime \<Rightarrow> trained_models option \<Rightarrow> string \<Rightarrow> int \<Rightarrow> item list" where
  "get_popular_items rt tm item_type limit =
     (case tm of
        None \<Rightarrow> []
      | Some t \<Rightarrow>
          if item_type = ''anime'' \<and> popular_key (anime t) \<noteq> Absent
          then (case popular_key (anime t) of
                  Loaded popular_df \<Rightarrow>
                    (case data_key (anime t) of
                       Loaded d \<Rightarrow>
                         List.map_filter (\<lambda>(i, anime_name). popular_anime_item rt d i anime_name)
                           (enumerate_from0 (py_take limit popular_df))
                     | _ \<Rightarrow> [])
                | _ \<Rightarrow> [])
          else if item_type = ''game'' \<and> popular_key (game t) \<noteq> Absent
          then (case popular_key (game t) of
                  Loaded popular_df \<Rightarrow>
                    (case data_key (game t) of
                       Loaded d \<Rightarrow>
                         List.map_filter (\<lambda>idx. popular_game_item rt d idx)
                           (py_take limit popular_df)
                     | _ \<Rightarrow> [])
                | _ \<Rightarrow> [])
          else [])"

section \<open>The tiered matcher\<close>

text \<open>
  \<^verbatim>\<open>data[col].str.lower()\<close> gives the lower-cased text of a string cell and \<^verbatim>\<open>nan\<close> for
  any other cell, and no comparison or \<^verbatim>\<open>na=False\<close> test selects a \<^verbatim>\<open>nan\<close>.
\<close>

definition lower_cell :: "pyval \<Rightarrow> string option" where
  "lower_cell v = (case v of PStr s \<Rightarrow> Some (lower s) | _ \<Rightarrow> None)"

definition select_rows :: "dataframe \<Rightarrow> string \<Rightarrow> (string \<Rightarrow> bool) \<Rightarrow> (int \<times> pydict) list" where
  "select_rows data col p =
     filter (\<lambda>(idx, r). case lower_cell (dict_get_or r col PNan) of None \<Rightarrow> False | Some s \<Rightarrow> p s)
       (rows data)"

text \<open>The loop of the Exact tier: every row is formatted and appended.\<close>

fun append_formatted ::
  "runtime \<Rightarrow> dataframe \<Rightarrow> string \<Rightarrow> string \<Rightarrow> item list \<Rightarrow> (int \<times> pydict) list \<Rightarrow> pyerr + item list"
where
  "append_formatted rt data item_type col results [] = Inr results"
| "append_formatted rt data item_type col results ((idx, r) # rest) =
     (case format_item rt (as_series data r) item_type col idx of
        Inl e \<Rightarrow> Inl e
      | Inr it \<Rightarrow> append_formatted rt data item_type col (results @ [it]) rest)"

text \<open>The loop of the other tiers: it stops once \<open>limit\<close> results are held and skips a
  row whose title some result already has.\<close>

fun append_new ::
  "runtime \<Rightarrow> dataframe \<Rightarrow> string \<Rightarrow> string \<Rightarrow> int \<Rightarrow> item list \<Rightarrow> (int \<times> pydict) list
     \<Rightarrow> pyerr + item list"
where
  "append_new rt data item_type col limit results [] = Inr results"
| "append_new rt data item_type col limit results ((idx, r) # rest) =
     (if limit \<le> int (length results) then Inr results
      else if py_str rt (series_at (as_series data r) col) \<in> set (map i_title results)
      then append_new rt data item_type col limit results rest
      else (case format_item rt (as_series data r) item_type col idx of
              Inl e \<Rightarrow> Inl e
            | Inr it \<Rightarrow> append_new rt data item_type col limit (results @ [it]) rest))"

text \<open>The Word-boundary tier: one search per word of three characters or more, with the
  pattern \<^verbatim>\<open>r'\b' + word + r'\b'\<close>.\<close>

definition word_pattern :: "string \<Rightarrow> string" where
  "word_pattern word = [CHR 0x5C, CHR ''b''] @ word @ [CHR 0x5C, CHR ''b'']"

text \<open>
  A word made of letters, digits and underscores only is a pattern without
  metacharacters: the search succeeds where the word occurs with no word character
  right before it and none right after it. For any other word the pattern is handed to
  the regular-expression engine of the runtime, which may reject it.
\<close>

definition is_word_char :: "char \<Rightarrow> bool" where
  "is_word_char c =
     (c \<in> set ''abcdefghijklmnopqrstuvwxyzABCDEFGHIJKLMNOPQRSTUVWXYZ0123456789_'')"

fun word_search :: "string \<Rightarrow> bool \<Rightarrow> string \<Rightarrow> bool" where
  "word_search word after_word_char [] = False"
| "word_search word after_word_char (c # cs) =
     ((\<not> after_word_char \<and> startswith (c # cs) word \<and>
       (case drop (length word) (c # cs) of [] \<Rightarrow> True | x # xs \<Rightarrow> \<not> is_word_char x))
      \<or> word_search word (is_word_char c) cs)"

definition compile_word :: "runtime \<Rightarrow> string \<Rightarrow> pyerr + (string \<Rightarrow> bool)" where
  "compile_word rt word =
     (if word \<noteq> [] \<and> list_all is_word_char word then Inr (word_search word False)
      else re_compile rt (word_pattern word))"

fun word_tier ::
  "runtime \<Rightarrow> dataframe \<Rightarrow> string \<Rightarrow> string \<Rightarrow> int \<Rightarrow> item list \<Rightarrow> string list
     \<Rightarrow> pyerr + item list"
where
  "word_tier rt data item_type col limit results [] = Inr results"
| "word_tier rt data item_type col limit results (word # words) =
     (if 3 \<le> length word
      then (case compile_word rt word of
              Inl e \<Rightarrow> Inl e
            | Inr search \<Rightarrow>
                (case append_new rt data item_type col limit results
                        (py_take (limit div 4) (select_rows data col search)) of
                   Inl e \<Rightarrow> Inl e
                 | Inr results' \<Rightarrow> word_tier rt data item_type col limit results' words))
      else word_tier rt data item_type col limit results words)"

text \<open>The four tiers, on the first title column the table has. \<open>Inl\<close> is an exception
  that reaches the \<^verbatim>\<open>except\<close> of the matcher.\<close>

definition exact_rows :: "dataframe \<Rightarrow> string \<Rightarrow> string \<Rightarrow> (int \<times> pydict) list" where
  "exact_rows data col title_lower = select_rows data col (\<lambda>s. s = title_lower)"

definition match_tiers ::
  "runtime \<Rightarrow> dataframe \<Rightarrow> string \<Rightarrow> string \<Rightarrow> int \<Rightarrow> pyerr + item list" where
  "match_tiers rt data item_type title_lower limit =
     (case find (\<lambda>col. col \<in> set (columns data)) title_columns of
        None \<Rightarrow> Inr []
      | Some col \<Rightarrow>
          if col \<notin> set (text_columns data) then Inl AttributeError
          else
            (case append_formatted rt data item_type col []
                    (py_take limit (exact_rows data col title_lower)) of
               Inl e \<Rightarrow> Inl e
             | Inr r1 \<Rightarrow>
            (case append_new rt data item_type col limit r1
                    (py_take (limit div 2)
                       (select_rows data col (\<lambda>s. startswith s title_lower))) of
               Inl e \<Rightarrow> Inl e
             | Inr r2 \<Rightarrow>
            (case (if 4 \<le> length title_lower
                   then append_new rt data item_type col limit r2
                          (py_take (limit div 3)
                             (select_rows data col (\<lambda>s. contains s title_lower)))
                   else Inr r2) of
               Inl e \<Rightarrow> Inl e
             | Inr r3 \<Rightarrow>
                 (let words = str_split title_lower
                  in if 1 < length words
                     then word_tier rt data item_type col limit r3 words
                     else Inr r3)))))"

text \<open>The padding loop over the popular items, with the set \<^verbatim>\<open>existing_titles\<close>.\<close>

fun pad_popular :: "int \<Rightarrow> item list \<Rightarrow> string set \<Rightarrow> item list \<Rightarrow> item list" where
  "pad_popular limit results existing_titles [] = results"
| "pad_popular limit results existing_titles (it # rest) =
     (if i_title it \<notin> existing_titles
      then (if limit \<le> int (length (results @ [it])) then results @ [it]
            else pad_popular limit (results @ [it]) (insert (i_title it) existing_titles) rest)
      else (if limit \<le> int (length results) then results
            else pad_popular limit results existing_titles rest))"

text \<open>\<^verbatim>\<open>_get_recommendations_from_trained_model(title, item_type, limit)\<close>\<close>

definition get_recommendations_from_trained_model ::
  "runtime \<Rightarrow> trained_models option \<Rightarrow> string \<Rightarrow> string \<Rightarrow> int \<Rightarrow> item list" where
  "get_recommendations_from_trained_model rt tm title item_type limit =
     (case tm of
        None \<Rightarrow> []
      | Some t \<Rightarrow>
          if item_type \<notin> {''anime'', ''game''} then []
          else
            (case (if item_type = ''anime'' then data_key (anime t) else data_key (game t)) of
               Loaded d \<Rightarrow>
                 (let title_lower = strip (lower title)
                  in if title_lower = [] then get_popular_items rt tm item_type limit
                     else
                       (case match_tiers rt d item_type title_lower limit of
                          Inl e \<Rightarrow> get_popular_items rt tm item_type limit
                        | Inr results \<Rightarrow>
                            py_take limit
                              (if int (length results) < limit
                               then pad_popular limit results (set (map i_title results))
                                      (get_popular_items rt tm item_type
                                         (limit - int (length results)))
                               else results)))
             | _ \<Rightarrow> []))"

section \<open>The image cache\<close>

text \<open>
  \<^verbatim>\<open>_normalize_anime_title_for_search\<close>: control characters become spaces, runs of
  whitespace collapse to one space, the ends are stripped, and a text of more than 40
  characters is cut before the first separator it contains. The two stars and the two
  long dashes of the source are not ASCII and cannot occur in a \<open>string\<close>.
\<close>

definition control_to_space :: "char \<Rightarrow> char" where
  "control_to_space c = (if (of_char c :: nat) < 32 then CHR '' '' else c)"

fun collapse_ws :: "bool \<Rightarrow> string \<Rightarrow> string" where
  "collapse_ws in_run [] = []"
| "collapse_ws in_run (c # cs) =
     (if is_space c then (if in_run then collapse_ws True cs else CHR '' '' # collapse_ws True cs)
      else c # collapse_ws False cs)"

text \<open>\<^verbatim>\<open>t.split(sep)[0]\<close>\<close>

fun before_sep :: "string \<Rightarrow> string \<Rightarrow> string" where
  "before_sep [] sep = []"
| "before_sep (c # cs) sep = (if startswith (c # cs) sep then [] else c # before_sep cs sep)"

fun cut_at_sep :: "string \<Rightarrow> string list \<Rightarrow> string" where
  "cut_at_sep t [] = t"
| "cut_at_sep t (sep # seps) =
     (if contains t sep \<and> 40 < length t then before_sep t sep else cut_at_sep t seps)"

definition normalize_anime_title_for_search :: "string \<Rightarrow> string" where
  "normalize_anime_title_for_search t =
     cut_at_sep (strip (collapse_ws False (map control_to_space t)))
       ['' - '', '':'', ''|'', ''/'']"

text \<open>
  The answer of the remote service to one request: the request raises (no connection, a
  timeout), or a response arrives with its \<^verbatim>\<open>ok\<close> flag and the value \<^verbatim>\<open>r.json()\<close>
  gives (\<open>None\<close> when parsing raises).
\<close>

datatype response = Raised | Response bool "pyval option"

text \<open>\<^verbatim>\<open>v.get(k)\<close> on a value that may not be a dictionary\<close>

definition py_get :: "pyval \<Rightarrow> string \<Rightarrow> pyerr + pyval" where
  "py_get v k = (case v of PDict d \<Rightarrow> Inr (dict_get d k) | _ \<Rightarrow> Inl AttributeError)"

text \<open>The URL the source reads out of the parsed response; \<open>Inr PNone\<close> when \<^verbatim>\<open>data\<close> is
  empty, \<open>Inl\<close> when a step raises.\<close>

definition image_of_response :: "pyval \<Rightarrow> pyerr + pyval" where
  "image_of_response js =
     (case py_get (py_or js (PDict [])) ''data'' of
        Inl e \<Rightarrow> Inl e
      | Inr d \<Rightarrow>
          (let data = py_or d (PList [])
           in if truthy data
              then (case data of
                      PList (first # others) \<Rightarrow>
                        (case py_get first ''images'' of
                           Inl e \<Rightarrow> Inl e
                         | Inr im \<Rightarrow>
                             (case py_get (py_or im (PDict [])) ''jpg'' of
                                Inl e \<Rightarrow> Inl e
                              | Inr j \<Rightarrow>
                                  (case py_or j (PDict []) of
                                     PDict jpg \<Rightarrow>
                                       Inr (py_or (dict_get jpg ''large_image_url'')
                                              (py_or (dict_get jpg ''image_url'')
                                                 (dict_get jpg ''small_image_url'')))
                                   | _ \<Rightarrow> Inl AttributeError)))
                    | _ \<Rightarrow> Inl TypeError)
              else Inr PNone))"

text \<open>
  The state: the dictionary \<^verbatim>\<open>ANIME_IMG_CACHE\<close>, and two counters of what a call does to
  the world, the requests sent to the remote service and the background saves started.
\<close>

record img_state =
  cache :: "string \<rightharpoonup> pyval"
  lookups :: nat
  saves :: nat

text \<open>
  \<^verbatim>\<open>_get_anime_image_url(title)\<close>, run alone. \<open>requests_ok\<close> says whether the
  \<^verbatim>\<open>requests\<close> module was imported; \<open>remote\<close> is the answer the service gives to the
  request of this call, as a function of the query sent.
\<close>

definition get_anime_image_url ::
  "bool \<Rightarrow> (string \<Rightarrow> response) \<Rightarrow> string \<Rightarrow> img_state \<Rightarrow> pyval \<times> img_state" where
  "get_anime_image_url requests_ok remote title st =
     (if title = [] then (PNone, st)
      else
        (let key = strip title
         in case cache st key of
              Some v \<Rightarrow> (v, st)
            | None \<Rightarrow>
                if \<not> requests_ok then (PNone, st)
                else
                  (let norm = normalize_anime_title_for_search key;
                       st1 = st\<lparr>lookups := lookups st + 1\<rparr>
                   in case remote (if norm = [] then key else norm) of
                        Raised \<Rightarrow> (PNone, st1)
                      | Response ok body \<Rightarrow>
                          if ok
                          then (case body of
                                  None \<Rightarrow> (PNone, st1)
                                | Some js \<Rightarrow>
                                    (case image_of_response js of
                                       Inl e \<Rightarrow> (PNone, st1)
                                     | Inr url \<Rightarrow>
                                         if is_http_str url
                                         then (url, st1\<lparr>cache := (cache st1)(key \<mapsto> url),
                                                        saves := saves st1 + 1\<rparr>)
                                         else (PNone, st1)))
                          else (PNone, st1))))"

section \<open>Example catalogs\<close>

text \<open>An anime table with the single column \<^verbatim>\<open>Name\<close>, its rows labelled from 0.\<close>

definition name_table :: "string list \<Rightarrow> dataframe" where
  "name_table names =
     \<lparr>columns = [''Name''], text_columns = [''Name''],
      rows = map (\<lambda>(i, n). (i, [(''Name'', PStr n)])) (enumerate_from0 names)\<rparr>"

definition anime_catalog :: "string list \<Rightarrow> string list \<Rightarrow> trained_models option" where
  "anime_catalog names popular_names =
     Some \<lparr>anime = \<lparr>popular_key = Loaded popular_names, data_key = Loaded (name_table names)\<rparr>,
           game = \<lparr>popular_key = Absent, data_key = Absent\<rparr>\<rparr>"

text \<open>The image cache of a fresh process, and a response of the remote service that
  carries one image URL.\<close>

definition empty_state :: img_state where
  "empty_state = \<lparr>cache = Map.empty, lookups = 0, saves = 0\<rparr>"

definition naruto_response :: response where
  "naruto_response =
     Response True (Some (PDict [(''data'', PList [PDict [(''images'',
       PDict [(''jpg'', PDict [(''image_url'',
         PStr ''https://cdn.myanimelist.net/images/anime/13/17405.jpg'')])])]])]))"

section \<open>Properties\<close>

subsection \<open>Strings\<close>

lemma startswith_iff: "startswith s p \<longleftrightarrow> (\<exists>q. s = p @ q)"
  by (induction s p rule: startswith.induct) auto

lemma contains_iff: "contains s sub \<longleftrightarrow> (\<exists>p q. s = p @ sub @ q)"
proof (induction s)
  case Nil
  then show ?case by auto
next
  case (Cons c cs)
  show ?case
  proof
    assume "contains (c # cs) sub"
    then consider "startswith (c # cs) sub" | "contains cs sub" by auto
    then show "\<exists>p q. c # cs = p @ sub @ q"
    proof cases
      case 1
      then obtain q where "c # cs = sub @ q" by (auto simp: startswith_iff)
      then have "c # cs = [] @ sub @ q" by simp
      then show ?thesis by blast
    next
      case 2
      then obtain p q where "cs = p @ sub @ q" using Cons.IH by blast
      then have "c # cs = (c # p) @ sub @ q" by simp
      then show ?thesis by blast
    qed
  next
    assume "\<exists>p q. c # cs = p @ sub @ q"
    then obtain p q where pq: "c # cs = p @ sub @ q" by blast
    show "contains (c # cs) sub"
    proof (cases p)
      case Nil
      with pq have "startswith (c # cs) sub" by (auto simp: startswith_iff)
      then show ?thesis by simp
    next
      case (Cons a p')
      with pq have "cs = p' @ sub @ q" by simp
      then have "contains cs sub" using Cons.IH by blast
      then show ?thesis by simp
    qed
  qed
qed

lemma contains_suffix_part: "contains s (a @ b) \<Longrightarrow> contains s b"
proof -
  assume "contains s (a @ b)"
  then obtain p q where "s = p @ (a @ b) @ q" by (auto simp: contains_iff)
  then have "s = (p @ a) @ b @ q" by simp
  then show ?thesis unfolding contains_iff by blast
qed

subsection \<open>Rating scale converter\<close>

lemma very_negative_is_negative:
  "contains r ''very negative'' \<Longrightarrow> contains r ''negative''"
  using contains_suffix_part [of r "''very ''" "''negative''"] by simp

text \<open>The last rung of the ladder is never reached: no input is rated \<open>1.0\<close>.\<close>

lemma convert_game_rating_never_one: "convert_game_rating v \<noteq> Inr 1.0"
  by (cases v) (auto simp: convert_game_rating_def Let_def dest: very_negative_is_negative)

text \<open>
  C1. The claim is that a game rating containing "very negative", in any letter case, is
  converted to \<open>1.0\<close>. The source tests "negative" one rung earlier, so the label
  "Very Negative" is converted to \<open>2.0\<close>.
\<close>

theorem convert_game_rating_very_negative:
  "convert_game_rating (PStr ''Very Negative'') = Inr 2.0"
  by (simp add: convert_game_rating_def lower_def lower_char_def)

subsection \<open>The limit of a recommendation request\<close>

lemma clamp_limit_range: "1 \<le> clamp_limit n \<and> clamp_limit n \<le> 50"
  by (simp add: clamp_limit_def)

lemma clamp_limit_cases:
  "clamp_limit n = (if n < 1 then 1 else if 50 < n then 50 else n)"
  by (simp add: clamp_limit_def)

text \<open>
  C10. Whenever \<^verbatim>\<open>/api/recommend\<close> reaches the recommender, the limit it passes lies
  between 1 and 50: it is the caller's limit raised to 1 when below 1 and lowered to 50
  when above 50 (25 when the payload gives none).
\<close>

theorem api_recommend_limit:
  assumes "api_recommend rt body = Recommend t ty limit"
  shows "1 \<le> limit \<and> limit \<le> 50 \<and>
         (\<exists>payload n. body = Some (PDict payload) \<and>
            py_int (dict_get_or payload ''limit'' (PInt 25)) = Inr n \<and>
            limit = (if n < 1 then 1 else if 50 < n then 50 else n))"
proof -
  from assms obtain js where js: "body = Some js"
    by (cases body) (auto simp: api_recommend_def)
  from assms js obtain payload where p: "py_or js (PDict []) = PDict payload"
    by (cases "py_or js (PDict [])") (auto simp: api_recommend_def)
  have "truthy js"
  proof (rule ccontr)
    assume "\<not> truthy js"
    then have "payload = []" using p by (simp add: py_or_def)
    with assms js p show False
      by (simp add: api_recommend_def py_or_def dict_get_or_def py_str_def strip_def
            py_int_def Let_def)
  qed
  with p have js': "js = PDict payload" by (simp add: py_or_def)
  from assms js p obtain n where n: "py_int (dict_get_or payload ''limit'' (PInt 25)) = Inr n"
    by (cases "py_int (dict_get_or payload ''limit'' (PInt 25))")
       (auto simp: api_recommend_def)
  from assms js p n have "limit = clamp_limit n"
    by (auto simp: api_recommend_def Let_def split: if_splits)
  then show ?thesis
    using js js' n clamp_limit_range [of n] clamp_limit_cases [of n] by simp
qed

theorem api_recommend_limit_witness:
  "api_recommend plain_runtime
     (Some (PDict [(''title'', PStr '' Naruto ''), (''type'', PStr ''Anime''), (''limit'', PInt 500)]))
     = Recommend ''Naruto'' ''anime'' 50 \<and> (1::int) \<le> 50 \<and> (50::int) \<le> 50"
proof -
  have call: "api_recommend plain_runtime
     (Some (PDict [(''title'', PStr '' Naruto ''), (''type'', PStr ''Anime''), (''limit'', PInt 500)]))
     = Recommend ''Naruto'' ''anime'' 50"
    by (simp add: api_recommend_def py_or_def dict_get_or_def py_str_def py_int_def
          clamp_limit_def strip_def is_space_def lower_def lower_char_def)
  from api_recommend_limit [OF call] call show ?thesis by simp
qed

subsection \<open>The normalizer\<close>

lemma guarded_result:
  assumes "(if c then Inr None
            else (case g of Inl e \<Rightarrow> Inl e | Inr x \<Rightarrow> Inr (Some (f x)))) = Inr (Some it)"
  shows "\<exists>x. it = f x"
  using assms by (cases c; cases g) auto

lemma http_or_none:
  "(if is_http_str u then u else PNone) = PNone \<or>
   is_http_str (if is_http_str u then u else PNone)"
  by simp

text \<open>Every item the normalizer returns has an image URL that is null or starts with
  \<^verbatim>\<open>http\<close>.\<close>

lemma coerce_record_image_url:
  assumes "coerce_record rt obj item_type idx = Inr (Some it)"
  shows "i_image_url it = PNone \<or> is_http_str (i_image_url it)"
proof -
  note r = guarded_result [OF assms [unfolded coerce_record_def Let_def]]
  from r show ?thesis
    by (elim exE) (simp only: item.simps http_or_none)
qed

text \<open>
  C7. The claim is that every item the system produces, by the normalizer and by result
  formatting, has an image URL that is null or a string starting with "http", a missing
  or invalid raw value being replaced by null. The normalizer does so
  (\<open>coerce_record_image_url\<close>); \<^verbatim>\<open>_format_item\<close> copies the \<^verbatim>\<open>Image URL\<close> cell of an
  anime row as it is: a missing cell stays \<^verbatim>\<open>nan\<close>, and the text \<^verbatim>\<open>N/A\<close> stays.
\<close>

theorem format_item_keeps_raw_image_url:
  "format_item rt
     \<lparr>index = [''Name'', ''Image URL''], cells = [(''Name'', PStr ''Naruto'')]\<rparr>
     ''anime'' ''Name'' 0
   = Inr \<lparr>i_id = ''anime-0'', i_title = ''Naruto'', i_image_url = PNan, i_rating = PFloat 0.0,
          i_type = ''anime'',
          i_metadata = \<lparr>m_genre = PStr '''', m_year = PNone, m_popularity = 0, m_price = None,
                        m_similarity = Some 0.8\<rparr>\<rparr>
   \<and>
   format_item rt
     \<lparr>index = [''Name'', ''Image URL''],
      cells = [(''Name'', PStr ''Naruto''), (''Image URL'', PStr ''N/A'')]\<rparr>
     ''anime'' ''Name'' 0
   = Inr \<lparr>i_id = ''anime-0'', i_title = ''Naruto'', i_image_url = PStr ''N/A'',
          i_rating = PFloat 0.0, i_type = ''anime'',
          i_metadata = \<lparr>m_genre = PStr '''', m_year = PNone, m_popularity = 0, m_price = None,
                        m_similarity = Some 0.8\<rparr>\<rparr>"
  by (simp add: format_item_def rating_columns_def series_get_def series_at_def dict_get_or_def
        py_int_def py_str_def show_int_def show_nat.simps)

text \<open>
  C8. A raw record whose resolved title is longer than 300 characters, or contains, in
  any letter case, a substring of the denylist, is dropped: the normalizer returns null
  and raises nothing.
\<close>

theorem coerce_record_rejects_title:
  assumes "length (title_str rt obj idx) > 300 \<or>
           (\<exists>k \<in> set denylist. contains (lower (title_str rt obj idx)) k)"
  shows "coerce_record rt obj item_type idx = Inr None"
  using assms
  by (auto simp: coerce_record_def Let_def title_str_def list_ex_iff)

theorem coerce_record_rejects_title_witness:
  "coerce_record plain_runtime [(''title'', PStr ''pandas.core.frame.DataFrame'')] ''anime'' 0
     = Inr None \<and>
   coerce_record plain_runtime [(''name'', PStr (replicate 301 CHR ''x''))] ''game'' 7
     = Inr None"
proof -
  have a: "\<exists>k \<in> set denylist. contains
      (lower (title_str plain_runtime [(''title'', PStr ''pandas.core.frame.DataFrame'')] 0)) k"
    by (simp add: denylist_def title_str_def resolve_title_def py_or_def dict_get_def
          py_str_def lower_def lower_char_def)
  have b: "length (title_str plain_runtime [(''name'', PStr (replicate 301 CHR ''x''))] 7) > 300"
    by (simp add: title_str_def resolve_title_def py_or_def dict_get_def py_str_def)
  from coerce_record_rejects_title [OF disjI2, OF a]
       coerce_record_rejects_title [OF disjI1, OF b]
  show ?thesis by simp
qed

text \<open>
  C9. A raw record whose title contains "index" or "series" in any letter case is
  dropped by the normalizer, as the ordinary title "A Certain Magical Index" is.
\<close>

theorem coerce_record_drops_index_series:
  assumes "contains (lower (title_str rt obj idx)) ''index'' \<or>
           contains (lower (title_str rt obj idx)) ''series''"
  shows "coerce_record rt obj item_type idx = Inr None"
  using assms
  by (auto simp: coerce_record_def Let_def title_str_def denylist_def)

theorem coerce_record_drops_index_series_witness:
  "coerce_record plain_runtime [(''Name'', PStr ''A Certain Magical Index'')] ''anime'' 3
     = Inr None"
proof -
  have a: "contains
      (lower (title_str plain_runtime [(''Name'', PStr ''A Certain Magical Index'')] 3)) ''index''"
    by (simp add: title_str_def resolve_title_def py_or_def dict_get_def py_str_def
          lower_def lower_char_def)
  from coerce_record_drops_index_series [OF disjI1, OF a] show ?thesis .
qed

subsection \<open>The empty query\<close>

lemma is_space_lower_char: "is_space (lower_char c) = is_space c"
  by (auto simp: is_space_def lower_char_def split: option.splits if_splits)

lemma strip_empty_iff: "strip s = [] \<longleftrightarrow> (\<forall>c \<in> set s. is_space c)"
proof -
  have "(\<forall>c \<in> set (dropWhile is_space s). is_space c) \<longleftrightarrow> dropWhile is_space s = []"
  proof
    assume a: "\<forall>c \<in> set (dropWhile is_space s). is_space c"
    show "dropWhile is_space s = []"
    proof (rule ccontr)
      assume ne: "dropWhile is_space s \<noteq> []"
      then have "\<not> is_space (hd (dropWhile is_space s))" by (rule hd_dropWhile)
      moreover have "hd (dropWhile is_space s) \<in> set (dropWhile is_space s)" using ne by simp
      ultimately show False using a by blast
    qed
  qed (auto dest: set_dropWhileD)
  then show ?thesis by (simp add: strip_def dropWhile_eq_Nil_conv)
qed

lemma strip_lower_empty: "strip (lower s) = [] \<longleftrightarrow> strip s = []"
  by (simp add: strip_empty_iff lower_def is_space_lower_char)

lemmas run_matcher =
  get_recommendations_from_trained_model_def match_tiers_def title_columns_def
  exact_rows_def select_rows_def lower_cell_def dict_get_or_def py_take_def
  format_item_def rating_columns_def series_get_def series_at_def as_series_def
  py_int_def py_str_def show_int_def show_nat.simps strip_def is_space_def
  lower_def lower_char_def str_split_def get_popular_items_def enumerate_from0_def
  popular_anime_item_def name_table_def anime_catalog_def Let_def

text \<open>
  C6. For every state of the models and every limit, the matcher called with a query
  that is empty after trimming returns the list \<^verbatim>\<open>_get_popular_items\<close> returns for
  that limit.
\<close>

theorem empty_query_is_popular:
  assumes "strip title = []"
  shows "get_recommendations_from_trained_model rt tm title item_type limit
         = get_popular_items rt tm item_type limit"
proof -
  have e: "strip (lower title) = []" using assms by (simp add: strip_lower_empty)
  show ?thesis
  proof (cases tm)
    case None
    then show ?thesis
      by (simp add: get_recommendations_from_trained_model_def get_popular_items_def)
  next
    case (Some t)
    show ?thesis
    proof (cases "item_type = ''anime''")
      case True
      with Some e show ?thesis
        by (cases "data_key (anime t)"; cases "popular_key (anime t)")
           (simp_all add: get_recommendations_from_trained_model_def get_popular_items_def)
    next
      case False
      note not_anime = False
      show ?thesis
      proof (cases "item_type = ''game''")
        case True
        with Some e show ?thesis
          by (cases "data_key (game t)"; cases "popular_key (game t)")
             (simp_all add: get_recommendations_from_trained_model_def get_popular_items_def)
      next
        case False
        with not_anime Some show ?thesis
          by (simp add: get_recommendations_from_trained_model_def get_popular_items_def)
      qed
    qed
  qed
qed

theorem empty_query_is_popular_witness:
  "get_recommendations_from_trained_model plain_runtime
     (anime_catalog [''Naruto'', ''Bleach'', ''One Piece''] [''One Piece'', ''Naruto'', ''Bleach''])
     ''   '' ''anime'' 2
   = get_popular_items plain_runtime
     (anime_catalog [''Naruto'', ''Bleach'', ''One Piece''] [''One Piece'', ''Naruto'', ''Bleach''])
     ''anime'' 2 \<and>
   map i_title (get_popular_items plain_runtime
     (anime_catalog [''Naruto'', ''Bleach'', ''One Piece''] [''One Piece'', ''Naruto'', ''Bleach''])
     ''anime'' 2) = [''One Piece'', ''Naruto'']"
proof -
  have blank: "strip ''   '' = []" by (simp add: strip_def is_space_def)
  have pop: "map i_title (get_popular_items plain_runtime
     (anime_catalog [''Naruto'', ''Bleach'', ''One Piece''] [''One Piece'', ''Naruto'', ''Bleach''])
     ''anime'' 2) = [''One Piece'', ''Naruto'']"
    by (simp add: run_matcher)
  from empty_query_is_popular [OF blank] pop show ?thesis by simp
qed

subsection \<open>Duplicates and padding\<close>

text \<open>
  C2. The claim is that no title appears twice in a result of the matcher. The loop of
  the Exact tier appends every matching row without the test for a title already
  held that the loops of the other three tiers make: on a table with two rows titled
  "Naruto", the query "naruto" is answered with both.
\<close>

theorem exact_tier_keeps_duplicates:
  "map i_title (get_recommendations_from_trained_model rt
      (anime_catalog [''Naruto'', ''Naruto''] []) ''naruto'' ''anime'' 12)
   = [''Naruto'', ''Naruto'']"
  by (simp add: run_matcher)

text \<open>
  C4. The claim is that the matcher pads its result from the popularity order, skipping
  titles already held, until it holds \<open>limit\<close> items or the order is exhausted. The
  source asks \<^verbatim>\<open>_get_popular_items\<close> for only as many items as are missing, before it
  drops those already held: with three titles in the table and in the popularity
  order, the query "naruto" with limit 2 is answered with one item, though the order
  holds two more.
\<close>

theorem padding_stops_short:
  "map i_title (get_recommendations_from_trained_model rt
      (anime_catalog [''Naruto'', ''Bleach'', ''One Piece''] [''Naruto'', ''Bleach'', ''One Piece''])
      ''naruto'' ''anime'' 2) = [''Naruto''] \<and>
   map i_title (get_popular_items rt
      (anime_catalog [''Naruto'', ''Bleach'', ''One Piece''] [''Naruto'', ''Bleach'', ''One Piece''])
      ''anime'' 3) = [''Naruto'', ''Bleach'', ''One Piece'']"
  by (simp add: run_matcher)

subsection \<open>The Exact tier comes first\<close>

lemma format_item_title:
  "format_item rt item item_type col idx = Inr it \<Longrightarrow> i_title it = py_str rt (series_at item col)"
  by (auto simp: format_item_def split: if_splits sum.splits)

lemma append_formatted_prefix:
  "append_formatted rt d ty col acc rs = Inr res \<Longrightarrow>
   \<exists>new. res = acc @ new \<and> length new = length rs \<and>
     list_all2 (\<lambda>row it. format_item rt (as_series d (snd row)) ty col (fst row) = Inr it) rs new"
proof (induction rs arbitrary: acc)
  case Nil
  then show ?case by simp
next
  case (Cons row rs)
  obtain idx r where row: "row = (idx, r)" by (cases row)
  from Cons.prems row obtain it where
    it: "format_item rt (as_series d r) ty col idx = Inr it" and
    rest: "append_formatted rt d ty col (acc @ [it]) rs = Inr res"
    by (auto split: sum.splits)
  from Cons.IH [OF rest] obtain new where
    "res = (acc @ [it]) @ new" "length new = length rs"
    "list_all2 (\<lambda>row it. format_item rt (as_series d (snd row)) ty col (fst row) = Inr it) rs new"
    by blast
  then have "res = acc @ (it # new) \<and> length (it # new) = length (row # rs) \<and>
     list_all2 (\<lambda>row it. format_item rt (as_series d (snd row)) ty col (fst row) = Inr it)
       (row # rs) (it # new)"
    using it row by simp
  then show ?case by blast
qed

lemma append_new_prefix:
  "append_new rt d ty col limit acc rs = Inr res \<Longrightarrow> \<exists>new. res = acc @ new"
proof (induction rs arbitrary: acc)
  case Nil
  then show ?case by simp
next
  case (Cons row rs)
  obtain idx r where row: "row = (idx, r)" by (cases row)
  show ?case
  proof (cases "limit \<le> int (length acc)")
    case True
    with Cons.prems row show ?thesis by simp
  next
    case False
    note room = False
    show ?thesis
    proof (cases "py_str rt (series_at (as_series d r) col) \<in> set (map i_title acc)")
      case True
      with Cons.prems row room have "append_new rt d ty col limit acc rs = Inr res" by simp
      then show ?thesis by (rule Cons.IH)
    next
      case False
      with Cons.prems row room obtain it where
        rest: "append_new rt d ty col limit (acc @ [it]) rs = Inr res"
        by (auto split: sum.splits)
      from Cons.IH [OF rest] obtain new where "res = (acc @ [it]) @ new" by blast
      then have "res = acc @ (it # new)" by simp
      then show ?thesis by blast
    qed
  qed
qed

lemma word_tier_prefix:
  "word_tier rt d ty col limit acc ws = Inr res \<Longrightarrow> \<exists>new. res = acc @ new"
proof (induction ws arbitrary: acc)
  case Nil
  then show ?case by simp
next
  case (Cons w ws)
  show ?case
  proof (cases "3 \<le> length w")
    case False
    with Cons.prems have "word_tier rt d ty col limit acc ws = Inr res" by simp
    then show ?thesis by (rule Cons.IH)
  next
    case True
    with Cons.prems obtain search mid where
      a: "append_new rt d ty col limit acc (py_take (limit div 4) (select_rows d col search))
            = Inr mid"
      and b: "word_tier rt d ty col limit mid ws = Inr res"
      by (auto split: sum.splits)
    from append_new_prefix [OF a] obtain n1 where "mid = acc @ n1" by blast
    moreover from Cons.IH [OF b] obtain n2 where "res = mid @ n2" by blast
    ultimately have "res = acc @ (n1 @ n2)" by simp
    then show ?thesis by blast
  qed
qed

lemma pad_popular_prefix: "\<exists>new. pad_popular limit acc ex ps = acc @ new"
proof (induction ps arbitrary: acc ex)
  case Nil
  then show ?case by simp
next
  case (Cons p ps)
  from Cons.IH [of "acc @ [p]" "insert (i_title p) ex"] obtain n1 where
    n1: "pad_popular limit (acc @ [p]) (insert (i_title p) ex) ps = (acc @ [p]) @ n1" by blast
  from Cons.IH [of acc ex] obtain n2 where n2: "pad_popular limit acc ex ps = acc @ n2" by blast
  show ?case
    using n1 n2 by (cases "i_title p \<in> ex") auto
qed

lemma length_py_take: "0 \<le> n \<Longrightarrow> int (length (py_take n xs)) \<le> n"
  by (simp add: py_take_def)

lemma py_take_append:
  assumes "0 \<le> n" "int (length xs) \<le> n"
  shows "py_take n (xs @ ys) = xs @ py_take (n - int (length xs)) ys"
  using assms by (simp add: py_take_def nat_diff_distrib)

lemma exact_rows_iff:
  "row \<in> set (exact_rows d col q) \<longleftrightarrow>
   row \<in> set (rows d) \<and> (\<exists>s. dict_get_or (snd row) col PNan = PStr s \<and> lower s = q)"
  by (cases row) (auto simp: exact_rows_def select_rows_def lower_cell_def split: pyval.splits)

lemma match_tiers_prefix:
  assumes col: "find (\<lambda>c. c \<in> set (columns d)) title_columns = Some col"
    and ok: "match_tiers rt d item_type q limit = Inr results"
  shows "\<exists>ex rest.
           append_formatted rt d item_type col [] (py_take limit (exact_rows d col q)) = Inr ex \<and>
           results = ex @ rest"
proof -
  from ok col obtain r1 r2 r3 where
    t1: "append_formatted rt d item_type col [] (py_take limit (exact_rows d col q)) = Inr r1" and
    t2: "append_new rt d item_type col limit r1
           (py_take (limit div 2) (select_rows d col (\<lambda>s. startswith s q))) = Inr r2" and
    t3: "(if 4 \<le> length q
          then append_new rt d item_type col limit r2
                 (py_take (limit div 3) (select_rows d col (\<lambda>s. contains s q)))
          else Inr r2) = Inr r3" and
    t4: "(if 1 < length (str_split q) then word_tier rt d item_type col limit r3 (str_split q)
          else Inr r3) = Inr results"
    by (auto simp: match_tiers_def Let_def split: if_splits sum.splits)
  from append_new_prefix [OF t2] obtain n2 where n2: "r2 = r1 @ n2" by blast
  have "\<exists>n3. r3 = r2 @ n3"
  proof (cases "4 \<le> length q")
    case True
    with t3 show ?thesis by (auto dest: append_new_prefix)
  next
    case False
    with t3 show ?thesis by simp
  qed
  then obtain n3 where n3: "r3 = r2 @ n3" by blast
  have "\<exists>n4. results = r3 @ n4"
  proof (cases "1 < length (str_split q)")
    case True
    with t4 show ?thesis by (auto dest: word_tier_prefix)
  next
    case False
    with t4 show ?thesis by simp
  qed
  then obtain n4 where n4: "results = r3 @ n4" by blast
  from n2 n3 n4 have "results = r1 @ (n2 @ n3 @ n4)" by simp
  with t1 show ?thesis by blast
qed

text \<open>
  C5, as amended. Take a query that is not empty after trimming, a limit that is not
  negative, a table with a title column, and a run of the tiers that raises nothing.
  Then the result of the matcher begins with the Exact tier: the first \<open>limit\<close> rows, in
  table order, whose lower-cased title equals the trimmed, lower-cased query, each
  formatted and under its own title. So each of these rows is included, and stands
  before every item of the Prefix, Contains and Word-boundary tiers and of the padding.
  A row that equals the query but is not among the first \<open>limit\<close> such rows is not
  promised a place.
\<close>

theorem exact_tier_first:
  assumes tm: "tm = Some t"
    and ty: "item_type = ''anime'' \<or> item_type = ''game''"
    and d: "(if item_type = ''anime'' then data_key (anime t) else data_key (game t)) = Loaded d"
    and col: "find (\<lambda>c. c \<in> set (columns d)) title_columns = Some col"
    and q: "strip (lower title) \<noteq> []"
    and lim: "0 \<le> limit"
    and ok: "match_tiers rt d item_type (strip (lower title)) limit = Inr results"
  shows "\<exists>ex rest.
           get_recommendations_from_trained_model rt tm title item_type limit = ex @ rest \<and>
           list_all2
             (\<lambda>row it. format_item rt (as_series d (snd row)) item_type col (fst row) = Inr it \<and>
                        i_title it = py_str rt (dict_get_or (snd row) col PNan))
             (py_take limit (exact_rows d col (strip (lower title)))) ex"
proof -
  let ?q = "strip (lower title)"
  let ?E = "py_take limit (exact_rows d col ?q)"
  from match_tiers_prefix [OF col ok] obtain ex rest where
    ex: "append_formatted rt d item_type col [] ?E = Inr ex" and res: "results = ex @ rest"
    by blast
  from append_formatted_prefix [OF ex] have
    len: "length ex = length ?E" and
    all: "list_all2
            (\<lambda>row it. format_item rt (as_series d (snd row)) item_type col (fst row) = Inr it)
            ?E ex"
    by auto
  from all have all': "list_all2
      (\<lambda>row it. format_item rt (as_series d (snd row)) item_type col (fst row) = Inr it \<and>
                 i_title it = py_str rt (dict_get_or (snd row) col PNan)) ?E ex"
    by (rule list_all2_mono) (auto dest: format_item_title simp: series_at_def as_series_def)
  have short: "int (length ex) \<le> limit"
    using len length_py_take [OF lim, of "exact_rows d col ?q"] by simp
  define padded where "padded =
     (if int (length results) < limit
      then pad_popular limit results (set (map i_title results))
             (get_popular_items rt tm item_type (limit - int (length results)))
      else results)"
  have "\<exists>new. padded = results @ new"
    unfolding padded_def using pad_popular_prefix by auto
  then obtain new where "padded = ex @ (rest @ new)" using res by auto
  then have "py_take limit padded = ex @ py_take (limit - int (length ex)) (rest @ new)"
    using py_take_append [OF lim short] by simp
  moreover have
    "get_recommendations_from_trained_model rt tm title item_type limit = py_take limit padded"
    using tm ty d q ok
    by (auto simp: get_recommendations_from_trained_model_def padded_def Let_def)
  ultimately show ?thesis using all' by auto
qed

theorem exact_tier_first_witness:
  "map i_title (get_recommendations_from_trained_model plain_runtime
      (anime_catalog [''Bleach'', ''Naruto'', ''Naruto Shippuden'', ''NARUTO''] [''Bleach''])
      '' Naruto '' ''anime'' 4) = [''Naruto'', ''NARUTO'', ''Naruto Shippuden'', ''Bleach''] \<and>
   (\<exists>ex rest.
      get_recommendations_from_trained_model plain_runtime
        (anime_catalog [''Bleach'', ''Naruto'', ''Naruto Shippuden'', ''NARUTO''] [''Bleach''])
        '' Naruto '' ''anime'' 4 = ex @ rest \<and>
      map i_title ex = [''Naruto'', ''NARUTO''])"
proof -
  let ?d = "name_table [''Bleach'', ''Naruto'', ''Naruto Shippuden'', ''NARUTO'']"
  have d: "(if ''anime'' = ''anime''
            then data_key (anime
                   \<lparr>anime = \<lparr>popular_key = Loaded [''Bleach''], data_key = Loaded ?d\<rparr>,
                    game = \<lparr>popular_key = Absent, data_key = Absent\<rparr>\<rparr>)
            else data_key (game
                   \<lparr>anime = \<lparr>popular_key = Loaded [''Bleach''], data_key = Loaded ?d\<rparr>,
                    game = \<lparr>popular_key = Absent, data_key = Absent\<rparr>\<rparr>)) = Loaded ?d"
    by simp
  have col: "find (\<lambda>c. c \<in> set (columns ?d)) title_columns = Some ''Name''"
    by (simp add: name_table_def title_columns_def)
  have q: "strip (lower '' Naruto '') \<noteq> []"
    by (simp add: strip_def is_space_def lower_def lower_char_def)
  have lim: "(0::int) \<le> 4" by simp
  have ok: "match_tiers plain_runtime ?d ''anime'' (strip (lower '' Naruto '')) 4
     = Inr (map (\<lambda>(i, n). \<lparr>i_id = ''anime-'' @ show_int i, i_title = n, i_image_url = PNone,
               i_rating = PFloat 0.0, i_type = ''anime'',
               i_metadata = \<lparr>m_genre = PStr '''', m_year = PNone, m_popularity = 0,
                              m_price = None, m_similarity = Some 0.8\<rparr>\<rparr>)
             [(1, ''Naruto''), (3, ''NARUTO''), (2, ''Naruto Shippuden'')])"
    by (simp add: run_matcher)
  have E: "py_take 4 (exact_rows ?d ''Name'' (strip (lower '' Naruto '')))
     = [(1, [(''Name'', PStr ''Naruto'')]), (3, [(''Name'', PStr ''NARUTO'')])]"
    by (simp add: run_matcher)
  have r: "map i_title (get_recommendations_from_trained_model plain_runtime
      (anime_catalog [''Bleach'', ''Naruto'', ''Naruto Shippuden'', ''NARUTO''] [''Bleach''])
      '' Naruto '' ''anime'' 4) = [''Naruto'', ''NARUTO'', ''Naruto Shippuden'', ''Bleach'']"
    by (simp add: run_matcher)
  from exact_tier_first [OF anime_catalog_def disjI1 [OF refl] d col q lim ok]
  obtain ex rest where
    a: "get_recommendations_from_trained_model plain_runtime
        (anime_catalog [''Bleach'', ''Naruto'', ''Naruto Shippuden'', ''NARUTO''] [''Bleach''])
        '' Naruto '' ''anime'' 4 = ex @ rest" and
    b: "list_all2
          (\<lambda>row it. format_item plain_runtime (as_series ?d (snd row)) ''anime'' ''Name'' (fst row)
                       = Inr it \<and>
                     i_title it = py_str plain_runtime (dict_get_or (snd row) ''Name'' PNan))
          (py_take 4 (exact_rows ?d ''Name'' (strip (lower '' Naruto '')))) ex"
    by auto
  from b have "map i_title ex = [''Naruto'', ''NARUTO'']"
    unfolding E by (auto simp: list_all2_Cons1 py_str_def dict_get_or_def)
  from a r this show ?thesis
    by (intro conjI exI [of _ ex] exI [of _ rest]) simp_all
qed

text \<open>
  C5, as stated, fails: with limit 1 the query "naruto" equals the lower-cased title of
  the second row, "NARUTO", and the result does not hold it; the Exact tier takes the
  first \<open>limit\<close> matching rows only.
\<close>

theorem exact_match_beyond_limit_left_out:
  "(1, [(''Name'', PStr ''NARUTO'')]) \<in> set (rows (name_table [''Naruto'', ''NARUTO''])) \<and>
   lower ''NARUTO'' = strip (lower ''naruto'') \<and>
   ''NARUTO'' \<notin> set (map i_title
      (get_recommendations_from_trained_model plain_runtime
         (anime_catalog [''Naruto'', ''NARUTO''] []) ''naruto'' ''anime'' 1))"
  by (simp add: run_matcher)

subsection \<open>Titles after the Exact tier\<close>

text \<open>
  The scenario of the specification: with the titles "Attack on Titan", "Attack No More"
  and "Titanfall", the query "attack" finds nothing in the Exact tier and the first two
  titles, in table order, in the Prefix tier. A query of two words reaches the
  Word-boundary tier, where "titan" does not match inside "Titanfall".
\<close>

lemma scenario_prefix_tier: "map i_title (get_recommendations_from_trained_model rt
      (anime_catalog [''Attack on Titan'', ''Attack No More'', ''Titanfall''] [])
      ''attack'' ''anime'' 12) = [''Attack on Titan'', ''Attack No More'']"
  by (simp add: run_matcher)

lemma scenario_word_tier: "map i_title (get_recommendations_from_trained_model rt
      (anime_catalog [''Attack on Titan'', ''Attack No More'', ''Titanfall''] [''Titanfall''])
      ''Attack  Titan'' ''anime'' 12) = [''Attack on Titan'', ''Attack No More'', ''Titanfall'']"
  by (simp add: run_matcher compile_word_def is_word_char_def)

text \<open>
  The loops of the Prefix, Contains and Word-boundary tiers and the padding loop never add
  a title that is already held. When the items of the Exact tier have distinct titles,
  so has the whole result.
\<close>

lemma append_new_distinct:
  "append_new rt d ty col limit acc rs = Inr res \<Longrightarrow> distinct (map i_title acc) \<Longrightarrow>
   distinct (map i_title res)"
proof (induction rs arbitrary: acc)
  case Nil
  then show ?case by simp
next
  case (Cons row rs)
  obtain idx r where row: "row = (idx, r)" by (cases row)
  show ?case
  proof (cases "limit \<le> int (length acc)")
    case True
    with Cons.prems row show ?thesis by simp
  next
    case False
    note room = False
    show ?thesis
    proof (cases "py_str rt (series_at (as_series d r) col) \<in> set (map i_title acc)")
      case True
      with Cons.prems row room have "append_new rt d ty col limit acc rs = Inr res" by simp
      then show ?thesis using Cons.prems(2) by (rule Cons.IH)
    next
      case False
      with Cons.prems row room obtain it where
        it: "format_item rt (as_series d r) ty col idx = Inr it" and
        rest: "append_new rt d ty col limit (acc @ [it]) rs = Inr res"
        by (auto split: sum.splits)
      from format_item_title [OF it] False have "i_title it \<notin> set (map i_title acc)" by simp
      with Cons.prems(2) have "distinct (map i_title (acc @ [it]))" by simp
      with rest show ?thesis by (rule Cons.IH)
    qed
  qed
qed

lemma word_tier_distinct:
  "word_tier rt d ty col limit acc ws = Inr res \<Longrightarrow> distinct (map i_title acc) \<Longrightarrow>
   distinct (map i_title res)"
proof (induction ws arbitrary: acc)
  case Nil
  then show ?case by simp
next
  case (Cons w ws)
  show ?case
  proof (cases "3 \<le> length w")
    case False
    with Cons.prems have "word_tier rt d ty col limit acc ws = Inr res" by simp
    then show ?thesis using Cons.prems(2) by (rule Cons.IH)
  next
    case True
    with Cons.prems obtain search mid where
      a: "append_new rt d ty col limit acc (py_take (limit div 4) (select_rows d col search))
            = Inr mid"
      and b: "word_tier rt d ty col limit mid ws = Inr res"
      by (auto split: sum.splits)
    from append_new_distinct [OF a Cons.prems(2)] have "distinct (map i_title mid)" .
    with b show ?thesis by (rule Cons.IH)
  qed
qed

lemma pad_popular_distinct:
  "distinct (map i_title acc) \<Longrightarrow> ex = set (map i_title acc) \<Longrightarrow>
   distinct (map i_title (pad_popular limit acc ex ps))"
proof (induction ps arbitrary: acc ex)
  case Nil
  then show ?case by simp
next
  case (Cons p ps)
  show ?case
  proof (cases "i_title p \<in> ex")
    case True
    with Cons show ?thesis by simp
  next
    case False
    with Cons.prems have d: "distinct (map i_title (acc @ [p]))" by simp
    have e: "insert (i_title p) ex = set (map i_title (acc @ [p]))" using Cons.prems by auto
    from Cons.IH [OF d e] d False show ?thesis by simp
  qed
qed

lemma distinct_py_take: "distinct xs \<Longrightarrow> distinct (py_take n xs)"
  by (simp add: py_take_def)

lemma map_py_take: "map f (py_take n xs) = py_take n (map f xs)"
  by (simp add: py_take_def take_map)

lemma matcher_distinct_after_exact:
  assumes tm: "tm = Some t"
    and ty: "item_type = ''anime'' \<or> item_type = ''game''"
    and d: "(if item_type = ''anime'' then data_key (anime t) else data_key (game t)) = Loaded d"
    and col: "find (\<lambda>c. c \<in> set (columns d)) title_columns = Some col"
    and q: "strip (lower title) \<noteq> []"
    and ok: "match_tiers rt d item_type (strip (lower title)) limit = Inr results"
    and ex: "append_formatted rt d item_type col []
               (py_take limit (exact_rows d col (strip (lower title)))) = Inr ex"
    and dist: "distinct (map i_title ex)"
  shows "distinct (map i_title (get_recommendations_from_trained_model rt tm title item_type limit))"
proof -
  let ?q = "strip (lower title)"
  from ok col ex obtain r2 r3 where
    t2: "append_new rt d item_type col limit ex
           (py_take (limit div 2) (select_rows d col (\<lambda>s. startswith s ?q))) = Inr r2" and
    t3: "(if 4 \<le> length ?q
          then append_new rt d item_type col limit r2
                 (py_take (limit div 3) (select_rows d col (\<lambda>s. contains s ?q)))
          else Inr r2) = Inr r3" and
    t4: "(if 1 < length (str_split ?q) then word_tier rt d item_type col limit r3 (str_split ?q)
          else Inr r3) = Inr results"
    by (auto simp: match_tiers_def Let_def split: if_splits sum.splits)
  from append_new_distinct [OF t2 dist] have d2: "distinct (map i_title r2)" .
  have d3: "distinct (map i_title r3)"
    using t3 d2 by (cases "4 \<le> length ?q") (auto dest: append_new_distinct)
  have d4: "distinct (map i_title results)"
    using t4 d3 by (cases "1 < length (str_split ?q)") (auto dest: word_tier_distinct)
  define padded where "padded =
     (if int (length results) < limit
      then pad_popular limit results (set (map i_title results))
             (get_popular_items rt tm item_type (limit - int (length results)))
      else results)"
  have "distinct (map i_title padded)"
    unfolding padded_def using d4 by (simp add: pad_popular_distinct)
  then have "distinct (map i_title (py_take limit padded))"
    by (simp add: map_py_take distinct_py_take)
  moreover have
    "get_recommendations_from_trained_model rt tm title item_type limit = py_take limit padded"
    using tm ty d q ok
    by (auto simp: get_recommendations_from_trained_model_def padded_def Let_def)
  ultimately show ?thesis by simp
qed

text \<open>A run that raises nothing returns at most \<open>limit\<close> items.\<close>

lemma matcher_length:
  "0 \<le> limit \<Longrightarrow> strip (lower title) \<noteq> [] \<Longrightarrow> tm = Some t \<Longrightarrow> 
   (if item_type = ''anime'' then data_key (anime t) else data_key (game t)) = Loaded d \<Longrightarrow>
   match_tiers rt d item_type (strip (lower title)) limit = Inr results \<Longrightarrow>
   int (length (get_recommendations_from_trained_model rt tm title item_type limit)) \<le> limit"
  by (auto simp: get_recommendations_from_trained_model_def Let_def length_py_take)


subsection \<open>The image cache\<close>

lemma get_anime_image_url_cases:
  assumes "get_anime_image_url requests_ok remote title st = (v, st1)"
  shows "(cache st (strip title) = Some v \<and> title \<noteq> [] \<and> st1 = st) \<or>
         (v = PNone \<and> cache st1 = cache st \<and> lookups st1 \<le> lookups st + 1) \<or>
         (cache st (strip title) = None \<and> title \<noteq> [] \<and> is_http_str v \<and>
          cache st1 = (cache st)(strip title \<mapsto> v) \<and> lookups st1 = lookups st + 1)"
  using assms
  by (auto simp: get_anime_image_url_def Let_def
           split: if_splits option.splits response.splits sum.splits)

lemma get_anime_image_url_hit:
  assumes "cache st (strip title) = Some v" "title \<noteq> []"
  shows "get_anime_image_url requests_ok remote title st = (v, st)"
  using assms by (simp add: get_anime_image_url_def)

text \<open>
  C3, as amended. When the first of two sequential calls for a title returns a value
  other than null, the two calls send at most one request to the remote service, and
  the second call sends none and returns the value the cache holds after the first,
  which is the value the first returned. A first call that finds nothing stores
  nothing, and is not covered.
\<close>

theorem second_call_hits_cache:
  assumes first: "get_anime_image_url requests_ok remote1 title st = (v, st1)"
    and found: "v \<noteq> PNone"
    and second: "get_anime_image_url requests_ok remote2 title st1 = (w, st2)"
  shows "lookups st2 \<le> lookups st + 1 \<and> lookups st2 = lookups st1 \<and>
         cache st1 (strip title) = Some v \<and> w = v"
proof -
  from get_anime_image_url_cases [OF first] found
  have c: "cache st1 (strip title) = Some v" and t: "title \<noteq> []"
    and l: "lookups st1 \<le> lookups st + 1"
    by auto
  from get_anime_image_url_hit [OF c t, of requests_ok remote2] second
  have "w = v" "st2 = st1" by simp_all
  with c l show ?thesis by simp
qed

theorem second_call_hits_cache_witness:
  "get_anime_image_url True (\<lambda>q. naruto_response) ''Naruto'' empty_state
     = (PStr ''https://cdn.myanimelist.net/images/anime/13/17405.jpg'',
        \<lparr>cache = [''Naruto'' \<mapsto> PStr ''https://cdn.myanimelist.net/images/anime/13/17405.jpg''],
         lookups = 1, saves = 1\<rparr>) \<and>
   get_anime_image_url True (\<lambda>q. Raised) ''Naruto''
       \<lparr>cache = [''Naruto'' \<mapsto> PStr ''https://cdn.myanimelist.net/images/anime/13/17405.jpg''],
        lookups = 1, saves = 1\<rparr>
     = (PStr ''https://cdn.myanimelist.net/images/anime/13/17405.jpg'',
        \<lparr>cache = [''Naruto'' \<mapsto> PStr ''https://cdn.myanimelist.net/images/anime/13/17405.jpg''],
         lookups = 1, saves = 1\<rparr>)"
proof -
  let ?url = "PStr ''https://cdn.myanimelist.net/images/anime/13/17405.jpg''"
  let ?st1 = "\<lparr>cache = [''Naruto'' \<mapsto> ?url], lookups = 1, saves = 1\<rparr>"
  have first: "get_anime_image_url True (\<lambda>q. naruto_response) ''Naruto'' empty_state
                 = (?url, ?st1)"
    by (simp add: get_anime_image_url_def empty_state_def naruto_response_def strip_def
          is_space_def image_of_response_def py_get_def py_or_def dict_get_def is_http_str_def
          Let_def)
  have found: "?url \<noteq> PNone" by simp
  have second: "get_anime_image_url True (\<lambda>q. Raised) ''Naruto'' ?st1 = (?url, ?st1)"
    by (simp add: get_anime_image_url_def strip_def is_space_def)
  from second_call_hits_cache [OF first found second] first second
  show ?thesis by simp
qed

text \<open>
  C3, as stated, fails: with an empty cache and a remote service that cannot be reached,
  each of two sequential calls for "Naruto" sends a request, two in total, and the
  second returns null.
\<close>

theorem failed_lookup_is_repeated:
  "get_anime_image_url True (\<lambda>q. Raised) ''Naruto'' empty_state
     = (PNone, \<lparr>cache = Map.empty, lookups = 1, saves = 0\<rparr>) \<and>
   get_anime_image_url True (\<lambda>q. Raised) ''Naruto'' \<lparr>cache = Map.empty, lookups = 1, saves = 0\<rparr>
     = (PNone, \<lparr>cache = Map.empty, lookups = 2, saves = 0\<rparr>)"
  by (simp add: get_anime_image_url_def empty_state_def strip_def is_space_def Let_def)

end
